theory Spec2Isabelle
  imports Complex_Main
begin

section \<open>The cart page of ModShop: data model\<close>

text \<open>
  The development embeds \<^verbatim>\<open>src/app/cart/page.tsx\<close>: the component state of
  \<^verbatim>\<open>CartPage\<close>, its event handlers and the collaborators they call.
  A handler is a function from the state of the render it runs in to the state after all
  of its updates; the setters only ever store constants or values read from that render,
  so applying them in program order gives the state React commits.

  Prices are JavaScript numbers in the source; they are exact rationals here, so rounding
  of binary floating point is not part of the model.
\<close>

record CartLine =
  slug :: string
  title :: string
  price :: rat
  quantity :: nat
  image_ref :: string
  category :: string

datatype NudgeType = Gentle | Alternative | Block | NoNudge

text \<open>
  The payload of a nudge. Every field is optional in the source (it reads them with
  \<^verbatim>\<open>?.\<close>, \<^verbatim>\<open>||\<close> and \<^verbatim>\<open>!\<close>), so every field is an option here.
\<close>

record NudgeData =
  productTitle :: "string option"
  currentProduct :: "string option"
  currentPrice :: "rat option"
  alternativeProduct :: "string option"
  alternativePrice :: "rat option"
  alternativeSlug :: "string option"
  alternativeImage :: "string option"
  alternativeCategory :: "string option"
  isAlreadyCheapest :: "bool option"
  duration :: "nat option"

record NudgeResponse =
  nudge_type :: NudgeType
  nudge_data :: "NudgeData option"

text \<open>What \<^verbatim>\<open>nudgeService.getCheaperAlternative\<close> resolves to.\<close>

record AlternativeLookupResult =
  alt_name :: string
  alt_price :: rat
  alt_slug :: string
  alt_image :: string
  alt_category :: string
  alt_isAlreadyCheapest :: bool

record User =
  email :: string

record Order =
  order_id :: string
  order_items :: "CartLine list"
  order_total :: rat
  order_date :: string
  userEmail :: string

datatype NotificationType = Success | Warning

text \<open>
  The notification texts of the page, one constructor per template, carrying the values
  the template interpolates. The amount of \<open>SwitchedTo\<close> is \<open>None\<close> where the
  source's subtraction has an undefined operand and prints NaN. The two-decimal
  rendering of \<^verbatim>\<open>toFixed(2)\<close> is not modelled.
\<close>

datatype Message =
    EmptyMessage
  | LogInToPurchase
  | OrderPlaced
  | SavedByRemoving rat string
  | SwitchedTo string "rat option"

text \<open>
  The entry \<^verbatim>\<open>modshop_orders\<close> of local storage: missing (or the empty string), a
  serialised array of orders, a string that is not JSON, or the JSON of a value that is
  not an array.
\<close>

datatype stored = Absent | Stored "Order list" | NotJSON | NotAnArray

text \<open>
  What the storage calls of the page throw: \<^verbatim>\<open>JSON.parse\<close> on a string that is not
  JSON, \<^verbatim>\<open>orders.push\<close> on a value that is not an array, \<^verbatim>\<open>setItem\<close> when storage
  refuses the write.
\<close>

datatype exn = SyntaxError | TypeError | QuotaExceededError

text \<open>
  The calls to the nudge service and to the cart, and the writes to local storage, that
  returned, in the order the handlers made them.
\<close>

datatype call =
    TriggerNudge "CartLine list" rat
  | RecordNudgeInteraction NudgeType bool
  | GetCheaperAlternative CartLine
  | RemoveItem string
  | AddItem CartLine
  | ClearCart
  | SetItem "Order list"

text \<open>
  The state a handler sees and leaves: the cart and the user of the two contexts, the six
  \<^verbatim>\<open>useState\<close> cells of the component, the storage entry and the log of calls.
\<close>

record state =
  items :: "CartLine list"
  user :: "User option"
  checkoutAnimating :: bool
  showNotification :: bool
  notificationType :: NotificationType
  notificationMessage :: Message
  currentNudge :: "NudgeResponse option"
  canProceedWithCheckout :: bool
  modshop_orders :: stored
  calls :: "call list"

text \<open>
  What a handler reads from outside the page: the clock (\<^verbatim>\<open>Date.now()\<close> as its
  decimal string and \<^verbatim>\<open>new Date().toISOString()\<close>), whether local storage refuses
  the write, and the two queries of the nudge service, whose source is not part of the
  page; both are taken to answer.
\<close>

record env =
  now :: string
  isoDate :: string
  quotaExceeded :: bool
  triggerNudge :: "CartLine list \<Rightarrow> rat \<Rightarrow> NudgeResponse"
  getCheaperAlternative :: "CartLine \<Rightarrow> AlternativeLookupResult"

text \<open>A handler that throws leaves the updates it had queued before the throw.\<close>

type_synonym outcome = "(exn \<times> state) + state"

section \<open>JavaScript truthiness\<close>

definition truthy_string :: "string option \<Rightarrow> string option" where
  "truthy_string v = (case v of None \<Rightarrow> None | Some s \<Rightarrow> if s = [] then None else Some s)"

definition truthy_number :: "rat option \<Rightarrow> rat option" where
  "truthy_number v = (case v of None \<Rightarrow> None | Some r \<Rightarrow> if r = 0 then None else Some r)"

definition truthy_bool :: "bool option \<Rightarrow> bool" where
  "truthy_bool v = (case v of None \<Rightarrow> False | Some b \<Rightarrow> b)"

definition or_else :: "string option \<Rightarrow> string \<Rightarrow> string" where
  "or_else v d = (case truthy_string v of None \<Rightarrow> d | Some s \<Rightarrow> s)"

definition first_item :: "CartLine list \<Rightarrow> CartLine option" where
  "first_item xs = (case xs of [] \<Rightarrow> None | x # _ \<Rightarrow> Some x)"

section \<open>The cart collaborator\<close>

text \<open>
  Modelled from the spec: the cart operations \<^verbatim>\<open>removeItem\<close>, \<^verbatim>\<open>addItem\<close> and
  \<^verbatim>\<open>clearCart\<close> of \<^verbatim>\<open>context/CartContext\<close>, which is not among the sources.
  The spec gives the cart the interface \<^verbatim>\<open>addItem(CartLine)\<close>,
  \<^verbatim>\<open>removeItem(slug)\<close>, \<^verbatim>\<open>clearCart()\<close>, says it guarantees line uniqueness by
  slug and rejects or ignores a quantity below 1, and serialises its mutations. So
  \<open>removeItem\<close> drops the line of that slug, \<open>addItem\<close> appends a line whose slug is new
  and ignores a quantity below 1. For a slug already in the cart the spec only fixes that
  no second line appears; the model adds the quantity to the existing line.
\<close>

definition removeItem :: "string \<Rightarrow> CartLine list \<Rightarrow> CartLine list" where
  "removeItem s xs = filter (\<lambda>l. slug l \<noteq> s) xs"

definition addItem :: "CartLine \<Rightarrow> CartLine list \<Rightarrow> CartLine list" where
  "addItem l xs =
     (if quantity l < 1 then xs
      else if slug l \<in> set (map slug xs)
      then map (\<lambda>x. if slug x = slug l then x\<lparr>quantity := quantity x + quantity l\<rparr> else x) xs
      else xs @ [l])"

definition clearCart :: "CartLine list \<Rightarrow> CartLine list" where
  "clearCart xs = []"

text \<open>
  Modelled from the spec: the invariant of a cart (\<^verbatim>\<open>slug\<close> a unique key, quantity at
  least 1), which the cart collaborator maintains.
\<close>

definition cart_ok :: "CartLine list \<Rightarrow> bool" where
  "cart_ok xs = (distinct (map slug xs) \<and> list_all (\<lambda>l. 1 \<le> quantity l) xs)"

section \<open>The page\<close>

text \<open>\<^verbatim>\<open>items.reduce((sum, item) => sum + item.price * item.quantity, 0)\<close>\<close>

definition total :: "CartLine list \<Rightarrow> rat" where
  "total xs = foldl (\<lambda>sum item. sum + price item * of_nat (quantity item)) 0 xs"

definition called :: "call \<Rightarrow> state \<Rightarrow> state" where
  "called c st = st\<lparr>calls := calls st @ [c]\<rparr>"

text \<open>The three setters every notification of the page goes through.\<close>

definition notify :: "NotificationType \<Rightarrow> Message \<Rightarrow> state \<Rightarrow> state" where
  "notify t m st = st\<lparr>notificationType := t, notificationMessage := m, showNotification := True\<rparr>"

definition cart_removeItem :: "string \<Rightarrow> state \<Rightarrow> state" where
  "cart_removeItem s st = called (RemoveItem s) (st\<lparr>items := removeItem s (items st)\<rparr>)"

definition cart_addItem :: "CartLine \<Rightarrow> state \<Rightarrow> state" where
  "cart_addItem l st = called (AddItem l) (st\<lparr>items := addItem l (items st)\<rparr>)"

definition cart_clearCart :: "state \<Rightarrow> state" where
  "cart_clearCart st = called ClearCart (st\<lparr>items := clearCart (items st)\<rparr>)"

text \<open>
  The order \<^verbatim>\<open>processCheckout\<close> builds from the render's cart, total and user;
  \<^verbatim>\<open>user?.email || ''\<close> is the empty string without a user.
\<close>

definition buildOrder :: "env \<Rightarrow> state \<Rightarrow> Order" where
  "buildOrder e st =
     \<lparr>order_id = now e,
      order_items = items st,
      order_total = total (items st),
      order_date = isoDate e,
      userEmail = or_else (map_option email (user st)) []\<rparr>"

text \<open>
  \<^verbatim>\<open>stored ? JSON.parse(stored) : []\<close> followed by \<^verbatim>\<open>orders.push(order)\<close>: the array
  the order is pushed on, or what is thrown on the way.
\<close>

definition parseOrders :: "stored \<Rightarrow> exn + Order list" where
  "parseOrders s =
     (case s of
        Absent \<Rightarrow> Inr []
      | Stored os \<Rightarrow> Inr os
      | NotJSON \<Rightarrow> Inl SyntaxError
      | NotAnArray \<Rightarrow> Inl TypeError)"

text \<open>
  \<^verbatim>\<open>processCheckout\<close>: the order is read into the stored list and written back, and
  only then the cart is cleared, the success notification shown and the flags reset.
  \<^verbatim>\<open>setItem\<close> throws when storage refuses the write; the source catches neither
  this nor what the parse and the push throw.
\<close>

definition processCheckout :: "env \<Rightarrow> state \<Rightarrow> outcome" where
  "processCheckout e st0 =
     (let st = st0\<lparr>checkoutAnimating := True\<rparr>;
          order = buildOrder e st
      in case parseOrders (modshop_orders st) of
           Inl x \<Rightarrow> Inl (x, st)
         | Inr parsed \<Rightarrow>
             (let orders = parsed @ [order]
              in if quotaExceeded e then Inl (QuotaExceededError, st)
                 else Inr ((notify Success OrderPlaced
                             (cart_clearCart
                               (called (SetItem orders) (st\<lparr>modshop_orders := Stored orders\<rparr>))))
                           \<lparr>checkoutAnimating := False,
                            canProceedWithCheckout := False,
                            currentNudge := None\<rparr>)))"

definition handleCheckout :: "env \<Rightarrow> state \<Rightarrow> outcome" where
  "handleCheckout e st =
     (if user st = None then Inr (notify Warning LogInToPurchase st)
      else if \<not> canProceedWithCheckout st then
        (let nudgeResponse = triggerNudge e (items st) (total (items st));
             st1 = called (TriggerNudge (items st) (total (items st))) st
         in if nudge_type nudgeResponse \<noteq> NoNudge
            then Inr (st1\<lparr>currentNudge := Some nudgeResponse\<rparr>)
            else processCheckout e st1)
      else processCheckout e st)"

text \<open>\<^verbatim>\<open>currentNudge?.data\<close>\<close>

definition payload :: "NudgeResponse option \<Rightarrow> NudgeData option" where
  "payload n = (case n of None \<Rightarrow> None | Some r \<Rightarrow> nudge_data r)"

text \<open>The line \<^verbatim>\<open>handleNudgeAccept\<close> adds for the alternative product.\<close>

definition alternativeLine :: "env \<Rightarrow> NudgeData \<Rightarrow> CartLine \<Rightarrow> string \<Rightarrow> rat \<Rightarrow> CartLine" where
  "alternativeLine e alternativeData originalItem product altPrice =
     \<lparr>slug = or_else (alternativeSlug alternativeData) (''alternative-'' @ now e),
      title = product,
      price = altPrice,
      quantity = quantity originalItem,
      image_ref = or_else (alternativeImage alternativeData) ''/images/products/placeholder.jpg'',
      category = or_else (alternativeCategory alternativeData)
                   (or_else (Some (category originalItem)) ''general'')\<rparr>"

definition handleNudgeAccept :: "env \<Rightarrow> NudgeType \<Rightarrow> state \<Rightarrow> state" where
  "handleNudgeAccept e nudgeType st0 =
     (let st = called (RecordNudgeInteraction nudgeType True) st0
      in case (if nudgeType = Alternative then payload (currentNudge st) else None) of
           None \<Rightarrow> st\<lparr>currentNudge := None\<rparr>
         | Some alternativeData \<Rightarrow>
             (let originalItem = first_item (items st)
              in if truthy_bool (isAlreadyCheapest alternativeData) then
                   (case originalItem of
                      None \<Rightarrow> st\<lparr>currentNudge := None\<rparr>
                    | Some oi \<Rightarrow>
                        (notify Success
                           (SavedByRemoving (price oi * of_nat (quantity oi)) (title oi))
                           (cart_removeItem (slug oi) st))\<lparr>currentNudge := None\<rparr>)
                 else
                   (case originalItem of
                      None \<Rightarrow> st\<lparr>currentNudge := None\<rparr>
                    | Some oi \<Rightarrow>
                        (case truthy_string (alternativeProduct alternativeData) of
                           None \<Rightarrow> st\<lparr>currentNudge := None\<rparr>
                         | Some product \<Rightarrow>
                             (case truthy_number (alternativePrice alternativeData) of
                                None \<Rightarrow> st\<lparr>currentNudge := None\<rparr>
                              | Some altPrice \<Rightarrow>
                                  (notify Success
                                     (SwitchedTo product
                                        (map_option (\<lambda>c. c - altPrice)
                                           (currentPrice alternativeData)))
                                     (cart_addItem
                                        (alternativeLine e alternativeData oi product altPrice)
                                        (cart_removeItem (slug oi) st)))
                                  \<lparr>currentNudge := None\<rparr>)))))"

definition handleNudgeReject :: "env \<Rightarrow> NudgeType \<Rightarrow> state \<Rightarrow> outcome" where
  "handleNudgeReject e nudgeType st0 =
     (let st = (called (RecordNudgeInteraction nudgeType False) st0)\<lparr>currentNudge := None\<rparr>
      in if nudgeType = Gentle \<or> nudgeType = Block
         then processCheckout e (st\<lparr>canProceedWithCheckout := True\<rparr>)
         else Inr st)"

definition handleBlockComplete :: "state \<Rightarrow> state" where
  "handleBlockComplete st =
     (called (RecordNudgeInteraction Block True) st)
       \<lparr>currentNudge := None, canProceedWithCheckout := True\<rparr>"

definition noData :: NudgeData where
  "noData = \<lparr>productTitle = None, currentProduct = None, currentPrice = None,
             alternativeProduct = None, alternativePrice = None, alternativeSlug = None,
             alternativeImage = None, alternativeCategory = None,
             isAlreadyCheapest = None, duration = None\<rparr>"

definition triggerGentleNudge :: "state \<Rightarrow> state" where
  "triggerGentleNudge st =
     st\<lparr>currentNudge := Some
          \<lparr>nudge_type = Gentle,
           nudge_data = Some (noData\<lparr>productTitle :=
             Some (or_else (map_option title (first_item (items st))) ''this item'')\<rparr>)\<rparr>\<rparr>"

definition triggerAlternativeNudge :: "env \<Rightarrow> state \<Rightarrow> state" where
  "triggerAlternativeNudge e st =
     (case items st of
        [] \<Rightarrow> st
      | item0 # _ \<Rightarrow>
          (let alternative = getCheaperAlternative e item0
           in (called (GetCheaperAlternative item0) st)
                \<lparr>currentNudge := Some
                   \<lparr>nudge_type = Alternative,
                    nudge_data = Some (noData
                      \<lparr>currentProduct := Some (title item0),
                       currentPrice := Some (price item0),
                       alternativeProduct := Some (alt_name alternative),
                       alternativePrice := Some (alt_price alternative),
                       alternativeSlug := Some (alt_slug alternative),
                       alternativeImage := Some (alt_image alternative),
                       alternativeCategory := Some (alt_category alternative),
                       isAlreadyCheapest := Some (alt_isAlreadyCheapest alternative)\<rparr>)\<rparr>\<rparr>))"

definition triggerBlockNudge :: "state \<Rightarrow> state" where
  "triggerBlockNudge st =
     st\<lparr>currentNudge := Some
          \<lparr>nudge_type = Block, nudge_data = Some (noData\<lparr>duration := Some 15\<rparr>)\<rparr>\<rparr>"

section \<open>Runs of the page\<close>

text \<open>The state a handler leaves, whether it returned or threw.\<close>

fun state_of :: "outcome \<Rightarrow> state" where
  "state_of (Inl (x, st)) = st"
| "state_of (Inr st) = st"

text \<open>
  What can happen to the page between two renders: one of its handlers runs, or the cart
  or the user changes from outside the handlers (the quantity and remove controls of the
  page, another page, a login), or a notification or the animation ends.
\<close>

datatype event =
    RequestCheckout
  | AcceptNudge NudgeType
  | RejectNudge NudgeType
  | CompleteBlock
  | OpenGentleNudge
  | OpenAlternativeNudge
  | OpenBlockNudge
  | CartChanged "CartLine list"
  | UserChanged "User option"
  | CloseNotification
  | AnimationTimeout

fun fire :: "env \<Rightarrow> event \<Rightarrow> state \<Rightarrow> state" where
  "fire e RequestCheckout st = state_of (handleCheckout e st)"
| "fire e (AcceptNudge t) st = handleNudgeAccept e t st"
| "fire e (RejectNudge t) st = state_of (handleNudgeReject e t st)"
| "fire e CompleteBlock st = handleBlockComplete st"
| "fire e OpenGentleNudge st = triggerGentleNudge st"
| "fire e OpenAlternativeNudge st = triggerAlternativeNudge e st"
| "fire e OpenBlockNudge st = triggerBlockNudge st"
| "fire e (CartChanged xs) st = st\<lparr>items := xs\<rparr>"
| "fire e (UserChanged u) st = st\<lparr>user := u\<rparr>"
| "fire e CloseNotification st = st\<lparr>showNotification := False\<rparr>"
| "fire e AnimationTimeout st = st\<lparr>checkoutAnimating := False\<rparr>"

fun run :: "(env \<times> event) list \<Rightarrow> state \<Rightarrow> state" where
  "run [] st = st"
| "run ((e, ev) # evs) st = run evs (fire e ev st)"

fun is_evaluation :: "call \<Rightarrow> bool" where
  "is_evaluation (TriggerNudge xs t) = True"
| "is_evaluation c = False"

fun is_commit :: "call \<Rightarrow> bool" where
  "is_commit (SetItem os) = True"
| "is_commit c = False"

text \<open>How often the nudge service was asked for a decision, and how many orders were written.\<close>

definition evaluations :: "state \<Rightarrow> nat" where
  "evaluations st = length (filter is_evaluation (calls st))"

definition commits :: "state \<Rightarrow> nat" where
  "commits st = length (filter is_commit (calls st))"

text \<open>The calls a handler added to the log.\<close>

definition new_calls :: "state \<Rightarrow> state \<Rightarrow> call list" where
  "new_calls st st' = drop (length (calls st)) (calls st')"

section \<open>Concrete pages\<close>

text \<open>The page as it is first rendered, for a cart and a user.\<close>

definition page_init :: "CartLine list \<Rightarrow> User option \<Rightarrow> state" where
  "page_init xs u =
     \<lparr>items = xs, user = u, checkoutAnimating = False, showNotification = False,
      notificationType = Success, notificationMessage = EmptyMessage, currentNudge = None,
      canProceedWithCheckout = False, modshop_orders = Absent, calls = []\<rparr>"

definition lineA :: CartLine where
  "lineA = \<lparr>slug = ''a'', title = ''Mug'', price = 10, quantity = 2,
            image_ref = ''/images/products/a.jpg'', category = ''kitchen''\<rparr>"

definition lineX :: CartLine where
  "lineX = \<lparr>slug = ''x'', title = ''Desk lamp'', price = 50, quantity = 3,
            image_ref = ''/images/products/x.jpg'', category = ''lighting''\<rparr>"

definition lineUntitled :: CartLine where
  "lineUntitled = \<lparr>slug = ''u'', title = [], price = 5, quantity = 1,
                   image_ref = ''/images/products/u.jpg'', category = ''misc''\<rparr>"

definition alice :: User where
  "alice = \<lparr>email = ''alice@example.org''\<rparr>"

text \<open>A nudge service that never nudges and finds nothing cheaper; storage accepts writes.\<close>

definition env0 :: env where
  "env0 = \<lparr>now = ''1700000000000'', isoDate = ''2023-11-14T22:13:20.000Z'',
           quotaExceeded = False,
           triggerNudge = (\<lambda>xs t. \<lparr>nudge_type = NoNudge, nudge_data = None\<rparr>),
           getCheaperAlternative = (\<lambda>l. \<lparr>alt_name = title l, alt_price = price l,
              alt_slug = slug l, alt_image = image_ref l, alt_category = category l,
              alt_isAlreadyCheapest = True\<rparr>)\<rparr>"

text \<open>The same, with a nudge service that always answers with a block nudge.\<close>

definition envBlock :: env where
  "envBlock = env0\<lparr>triggerNudge :=
     (\<lambda>xs t. \<lparr>nudge_type = Block, nudge_data = Some (noData\<lparr>duration := Some 15\<rparr>)\<rparr>)\<rparr>"

text \<open>The same as \<open>env0\<close>, with local storage refusing the write.\<close>

definition envFull :: env where
  "envFull = env0\<lparr>quotaExceeded := True\<rparr>"

text \<open>An alternative nudge for a product at 50 with an alternative at the given price.\<close>

definition alternativeNudge :: "rat \<Rightarrow> bool \<Rightarrow> NudgeResponse" where
  "alternativeNudge p cheapest =
     \<lparr>nudge_type = Alternative,
      nudge_data = Some (noData
        \<lparr>currentProduct := Some ''Desk lamp'', currentPrice := Some 50,
         alternativeProduct := Some ''Clip light'', alternativePrice := Some p,
         alternativeSlug := Some ''y'', alternativeImage := Some ''/images/products/y.jpg'',
         alternativeCategory := Some ''lighting'', isAlreadyCheapest := Some cheapest\<rparr>)\<rparr>"

text \<open>The same as \<open>envBlock\<close>, with local storage refusing the write.\<close>

definition envBlockFull :: env where
  "envBlockFull = envBlock\<lparr>quotaExceeded := True\<rparr>"

text \<open>
  A mug and three lamps in the cart, with an alternative nudge still open that was built
  for the lamp.
\<close>

definition staleNudge :: state where
  "staleNudge =
     (page_init [lineA, lineX] (Some alice))\<lparr>currentNudge := Some (alternativeNudge 30 False)\<rparr>"

text \<open>Alice asks to check out a mug and the nudge service answers with a block nudge.\<close>

definition blockOpen :: state where
  "blockOpen = state_of (handleCheckout envBlock (page_init [lineA] (Some alice)))"

text \<open>The countdown of that block nudge has run out.\<close>

definition bypassArmed :: state where
  "bypassArmed = handleBlockComplete blockOpen"

text \<open>
  What follows: the cart changes, a checkout request fails on the write, the user logs
  out, and another checkout request is refused with the warning.
\<close>

definition attempt :: "(env \<times> event) list" where
  "attempt = [(envBlock, CartChanged [lineX, lineA]),
              (envBlockFull, RequestCheckout),
              (envBlock, UserChanged None),
              (envBlock, RequestCheckout)]"

section \<open>Properties of the handlers\<close>

lemmas log_defs = evaluations_def commits_def new_calls_def

lemmas example_defs =
  page_init_def lineA_def lineX_def lineUntitled_def alice_def env0_def envBlock_def
  envFull_def alternativeNudge_def noData_def

lemmas page_defs =
  handleCheckout_def processCheckout_def handleBlockComplete_def buildOrder_def
  parseOrders_def notify_def called_def cart_clearCart_def clearCart_def total_def
  or_else_def truthy_string_def Let_def

subsection \<open>The commit\<close>

lemma buildOrder_frame [simp]:
  "buildOrder e (st\<lparr>checkoutAnimating := b\<rparr>) = buildOrder e st"
  "buildOrder e (st\<lparr>currentNudge := n\<rparr>) = buildOrder e st"
  "buildOrder e (st\<lparr>canProceedWithCheckout := b\<rparr>) = buildOrder e st"
  "buildOrder e (st\<lparr>calls := cs\<rparr>) = buildOrder e st"
  by (simp_all add: buildOrder_def)

lemma processCheckout_success:
  assumes "parseOrders (modshop_orders st) = Inr os" and "\<not> quotaExceeded e"
  shows "processCheckout e st =
     Inr (st\<lparr>items := [],
             modshop_orders := Stored (os @ [buildOrder e st]),
             calls := calls st @ [SetItem (os @ [buildOrder e st]), ClearCart],
             notificationType := Success,
             notificationMessage := OrderPlaced,
             showNotification := True,
             checkoutAnimating := False,
             canProceedWithCheckout := False,
             currentNudge := None\<rparr>)"
  using assms
  by (simp add: processCheckout_def Let_def notify_def called_def cart_clearCart_def clearCart_def)

lemma processCheckout_failure:
  assumes "parseOrders (modshop_orders st) = Inl x \<or> quotaExceeded e"
  shows "\<exists>x'. processCheckout e st = Inl (x', st\<lparr>checkoutAnimating := True\<rparr>)"
  using assms
  by (cases "parseOrders (modshop_orders st)") (auto simp add: processCheckout_def Let_def)

lemma processCheckout_cases:
  "(\<exists>x. processCheckout e st = Inl (x, st\<lparr>checkoutAnimating := True\<rparr>)) \<or>
   (\<exists>os. processCheckout e st =
      Inr (st\<lparr>items := [],
             modshop_orders := Stored (os @ [buildOrder e st]),
             calls := calls st @ [SetItem (os @ [buildOrder e st]), ClearCart],
             notificationType := Success,
             notificationMessage := OrderPlaced,
             showNotification := True,
             checkoutAnimating := False,
             canProceedWithCheckout := False,
             currentNudge := None\<rparr>))"
proof (cases "quotaExceeded e")
  case True
  then show ?thesis using processCheckout_failure [of st _ e] by blast
next
  case q: False
  show ?thesis
  proof (cases "parseOrders (modshop_orders st)")
    case (Inl x)
    then show ?thesis using processCheckout_failure [of st x e] by blast
  next
    case (Inr os)
    then show ?thesis using processCheckout_success [OF Inr q] by blast
  qed
qed

lemma processCheckout_env:
  "processCheckout (e\<lparr>triggerNudge := f\<rparr>) st = processCheckout e st"
  by (simp add: processCheckout_def buildOrder_def Let_def cong: sum.case_cong)

lemma checkout_bypass:
  assumes "canProceedWithCheckout st"
  shows "handleCheckout e st =
           (if user st = None then Inr (notify Warning LogInToPurchase st)
            else processCheckout e st)"
  using assms by (simp add: handleCheckout_def)

subsection \<open>What the handlers add to the log\<close>

lemma accept_calls:
  "\<exists>cs. calls (handleNudgeAccept e t st) = calls st @ RecordNudgeInteraction t True # cs \<and>
     (cs = [] \<or>
      (\<exists>x xs. items st = x # xs \<and>
         (cs = [RemoveItem (slug x)] \<or> (\<exists>l. cs = [RemoveItem (slug x), AddItem l]))))"
  by (cases "items st")
     (simp_all add: handleNudgeAccept_def Let_def called_def notify_def cart_removeItem_def
        cart_addItem_def first_item_def split: option.splits)

lemma accept_removes:
  assumes "items st = x # xs" and "payload (currentNudge st) = Some d"
    and "isAlreadyCheapest d = Some True \<or>
         (truthy_string (alternativeProduct d) \<noteq> None \<and> truthy_number (alternativePrice d) \<noteq> None)"
  shows "RemoveItem (slug x) \<in> set (new_calls st (handleNudgeAccept e Alternative st))"
  using assms
  by (auto simp add: handleNudgeAccept_def Let_def called_def notify_def cart_removeItem_def
        cart_addItem_def first_item_def truthy_bool_def new_calls_def split: option.splits)

lemma processCheckout_log:
  "evaluations (state_of (processCheckout e st)) = evaluations st \<and>
   commits st \<le> commits (state_of (processCheckout e st)) \<and>
   (commits (state_of (processCheckout e st)) = commits st \<longrightarrow>
      canProceedWithCheckout (state_of (processCheckout e st)) = canProceedWithCheckout st)"
  using processCheckout_cases [of e st] by (auto simp add: log_defs)

lemma accept_log:
  "evaluations (handleNudgeAccept e t st) = evaluations st \<and>
   commits (handleNudgeAccept e t st) = commits st"
  using accept_calls [of e t st] by (auto simp add: log_defs)

lemma accept_flag:
  "canProceedWithCheckout (handleNudgeAccept e t st) = canProceedWithCheckout st"
  by (simp add: handleNudgeAccept_def Let_def called_def notify_def cart_removeItem_def
        cart_addItem_def split: option.splits)

lemma reject_log:
  "evaluations (state_of (handleNudgeReject e t st)) = evaluations st \<and>
   commits st \<le> commits (state_of (handleNudgeReject e t st)) \<and>
   (commits (state_of (handleNudgeReject e t st)) = commits st \<longrightarrow>
      canProceedWithCheckout st \<longrightarrow> canProceedWithCheckout (state_of (handleNudgeReject e t st)))"
proof (cases "t = Gentle \<or> t = Block")
  case True
  let ?st1 = "(called (RecordNudgeInteraction t False) st)
     \<lparr>currentNudge := None, canProceedWithCheckout := True\<rparr>"
  have eq: "handleNudgeReject e t st = processCheckout e ?st1"
    using True by (auto simp add: handleNudgeReject_def)
  have l: "evaluations ?st1 = evaluations st" "commits ?st1 = commits st"
    "canProceedWithCheckout ?st1"
    by (simp_all add: log_defs called_def)
  show ?thesis unfolding eq using processCheckout_log [of e ?st1] l by auto
next
  case False
  then show ?thesis by (auto simp add: handleNudgeReject_def called_def log_defs)
qed

lemma checkout_commits_mono:
  "commits st \<le> commits (state_of (handleCheckout e st))"
proof -
  let ?st1 = "called (TriggerNudge (items st) (total (items st))) st"
  have l: "commits ?st1 = commits st" by (simp add: log_defs called_def)
  have "commits ?st1 \<le> commits (state_of (processCheckout e ?st1))"
    using processCheckout_log [of e ?st1] by blast
  moreover have "commits st \<le> commits (state_of (processCheckout e st))"
    using processCheckout_log [of e st] by blast
  ultimately show ?thesis
    using l by (simp add: handleCheckout_def Let_def notify_def log_defs called_def)
qed

lemma checkout_bypass_log:
  assumes "canProceedWithCheckout st"
  shows "evaluations (state_of (handleCheckout e st)) = evaluations st \<and>
   (commits (state_of (handleCheckout e st)) = commits st \<longrightarrow>
      canProceedWithCheckout (state_of (handleCheckout e st)))"
  using assms processCheckout_log [of e st]
  by (auto simp add: checkout_bypass notify_def log_defs)

lemma fire_commits_mono: "commits st \<le> commits (fire e ev st)"
proof (cases ev)
  case RequestCheckout
  then show ?thesis using checkout_commits_mono [of st e] by simp
next
  case (AcceptNudge t)
  then show ?thesis using accept_log [of e t st] by simp
next
  case (RejectNudge t)
  then show ?thesis using reject_log [of e t st] by simp
next
  case OpenAlternativeNudge
  then show ?thesis
    by (simp add: triggerAlternativeNudge_def Let_def called_def log_defs split: list.splits)
qed (simp_all add: handleBlockComplete_def triggerGentleNudge_def triggerBlockNudge_def
       called_def log_defs)

lemma fire_bypass:
  assumes "canProceedWithCheckout st"
  shows "evaluations (fire e ev st) = evaluations st \<and>
         (commits (fire e ev st) = commits st \<longrightarrow> canProceedWithCheckout (fire e ev st))"
proof (cases ev)
  case RequestCheckout
  then show ?thesis using checkout_bypass_log [OF assms, of e] by simp
next
  case (AcceptNudge t)
  then show ?thesis using accept_log [of e t st] accept_flag [of e t st] assms by simp
next
  case (RejectNudge t)
  then show ?thesis using reject_log [of e t st] assms by simp
next
  case OpenAlternativeNudge
  then show ?thesis using assms
    by (simp add: triggerAlternativeNudge_def Let_def called_def log_defs split: list.splits)
qed (simp_all add: assms handleBlockComplete_def triggerGentleNudge_def triggerBlockNudge_def
       called_def log_defs)

lemma run_commits_mono: "commits st \<le> commits (run evs st)"
proof (induction evs arbitrary: st)
  case Nil
  show ?case by simp
next
  case (Cons p evs)
  obtain e ev where p: "p = (e, ev)" by (cases p)
  have "commits st \<le> commits (fire e ev st)" by (rule fire_commits_mono)
  also have "\<dots> \<le> commits (run evs (fire e ev st))" by (rule Cons.IH)
  finally show ?case by (simp add: p)
qed

lemma run_bypass:
  assumes "canProceedWithCheckout st" and "commits (run evs st) = commits st"
  shows "evaluations (run evs st) = evaluations st \<and> canProceedWithCheckout (run evs st)"
  using assms
proof (induction evs arbitrary: st)
  case Nil
  then show ?case by simp
next
  case (Cons p evs)
  obtain e ev where p: "p = (e, ev)" by (cases p)
  let ?st1 = "fire e ev st"
  have r: "commits (run evs ?st1) = commits st" using Cons.prems(2) by (simp add: p)
  have "commits st \<le> commits ?st1" by (rule fire_commits_mono)
  moreover have "commits ?st1 \<le> commits (run evs ?st1)" by (rule run_commits_mono)
  ultimately have c1: "commits ?st1 = commits st" using r by simp
  have step: "evaluations ?st1 = evaluations st" "canProceedWithCheckout ?st1"
    using fire_bypass [OF Cons.prems(1), of e ev] c1 by simp_all
  have "evaluations (run evs ?st1) = evaluations ?st1 \<and> canProceedWithCheckout (run evs ?st1)"
    using Cons.IH [OF step(2)] r c1 by simp
  then show ?case using step(1) by (simp add: p)
qed

subsection \<open>The cart collaborator on a well-formed cart\<close>

lemma no_line_of_slug:
  assumes "s \<notin> set (map slug xs)"
  shows "filter (\<lambda>l. slug l = s) xs = []"
proof -
  have "s \<notin> slug ` set xs" using assms by simp
  then have "\<forall>l \<in> set xs. slug l \<noteq> s" by (metis imageI)
  then show ?thesis by (simp add: filter_empty_conv)
qed

lemma removeItem_first:
  assumes "distinct (map slug (x # xs))"
  shows "removeItem (slug x) (x # xs) = xs"
proof -
  have "slug x \<notin> slug ` set xs" using assms by simp
  then have "\<forall>l \<in> set xs. slug l \<noteq> slug x" by (metis imageI)
  then have "filter (\<lambda>l. slug l \<noteq> slug x) xs = xs" by (simp add: filter_id_conv)
  then show ?thesis by (simp add: removeItem_def)
qed

lemma addItem_fresh:
  assumes "1 \<le> quantity l" and "slug l \<notin> set (map slug xs)"
  shows "addItem l xs = xs @ [l]"
  using assms by (simp add: addItem_def)

subsection \<open>Checkout without a user\<close>

text \<open>
  Claim C7. When no authenticated identity is present, a checkout request yields a
  user-facing warning and nothing else: the handler returns, and the state it leaves
  differs from the one it found only in the three notification cells. So no order is
  written, the nudge service is not asked (the log of calls is the same), and the cart,
  \<open>canProceedWithCheckout\<close> and the current nudge are unchanged.
\<close>

theorem C7_checkout_without_identity:
  assumes "user st = None"
  shows "handleCheckout e st =
           Inr (st\<lparr>notificationType := Warning, notificationMessage := LogInToPurchase,
                   showNotification := True\<rparr>)"
  using assms by (simp add: handleCheckout_def notify_def)

text \<open>Scenario A of the spec: one line of two items at 10, total 20, no user.\<close>

theorem C7_checkout_without_identity_witness:
  "user (page_init [lineA] None) = None \<and>
   total [lineA] = 20 \<and>
   handleCheckout env0 (page_init [lineA] None) =
     Inr ((page_init [lineA] None)\<lparr>notificationType := Warning,
            notificationMessage := LogInToPurchase, showNotification := True\<rparr>)"
  using C7_checkout_without_identity [of "page_init [lineA] None" env0]
  by (simp add: page_init_def lineA_def total_def)

subsection \<open>The gentle nudge\<close>

text \<open>
  Claim C8, as stated, says that the gentle nudge carries the title of the first line for
  every cart. The source takes \<^verbatim>\<open>items[0]?.title || 'this item'\<close>, and an empty title
  is falsy: for a cart whose first line has the empty title the payload is the
  placeholder, not that title.
\<close>

theorem C8_gentle_title_counterexample:
  "first_item (items (page_init [lineUntitled] (Some alice))) = Some lineUntitled \<and>
   Option.bind (payload (currentNudge (triggerGentleNudge (page_init [lineUntitled] (Some alice)))))
      productTitle = Some ''this item'' \<and>
   title lineUntitled \<noteq> ''this item''"
  by (simp add: triggerGentleNudge_def payload_def first_item_def or_else_def
        truthy_string_def example_defs)

text \<open>
  Claim C8, amended. Building a gentle nudge is total: for every state the handler returns
  a state whose current nudge has type gentle and a payload, and the payload's
  \<open>productTitle\<close> is the title of the first line when the cart has a first line with a
  non-empty title, and the placeholder \<^verbatim>\<open>this item\<close> when the cart is empty or that
  title is empty.
\<close>

theorem C8_gentle_nudge:
  "\<exists>d. currentNudge (triggerGentleNudge st) = Some \<lparr>nudge_type = Gentle, nudge_data = Some d\<rparr> \<and>
       productTitle d =
         Some (case items st of
                 [] \<Rightarrow> ''this item''
               | x # xs \<Rightarrow> if title x = [] then ''this item'' else title x)"
  by (simp add: triggerGentleNudge_def first_item_def or_else_def truthy_string_def
        split: list.splits)

theorem C8_gentle_nudge_witness:
  "\<exists>d. currentNudge (triggerGentleNudge (page_init [lineA] (Some alice))) =
          Some \<lparr>nudge_type = Gentle, nudge_data = Some d\<rparr> \<and>
       productTitle d = Some ''Mug''"
  using C8_gentle_nudge [of "page_init [lineA] (Some alice)"]
  by (simp add: example_defs)

subsection \<open>Accepting an alternative nudge\<close>

text \<open>
  Claim C10. If an alternative nudge whose payload does not say \<open>isAlreadyCheapest\<close> is
  accepted, and the payload's \<open>alternativePrice\<close> is 0 or missing, or its
  \<open>alternativeProduct\<close> is missing or empty, then the handler removes nothing, adds
  nothing and shows no notification: besides the interaction it reports to the nudge
  service, the only change is that the current nudge is cleared.
\<close>

theorem C10_accept_without_alternative:
  assumes "payload (currentNudge st) = Some d"
    and "isAlreadyCheapest d \<noteq> Some True"
    and "alternativePrice d = Some 0 \<or> alternativePrice d = None \<or>
         alternativeProduct d = None \<or> alternativeProduct d = Some []"
  shows "handleNudgeAccept e Alternative st =
           st\<lparr>calls := calls st @ [RecordNudgeInteraction Alternative True],
              currentNudge := None\<rparr>"
  using assms
  by (auto simp add: handleNudgeAccept_def called_def truthy_string_def truthy_number_def
        truthy_bool_def first_item_def split: option.splits list.splits)

theorem C10_accept_without_alternative_witness:
  "payload (currentNudge
      ((page_init [lineX] (Some alice))\<lparr>currentNudge := Some (alternativeNudge 0 False)\<rparr>))
     = nudge_data (alternativeNudge 0 False) \<and>
   Option.bind (nudge_data (alternativeNudge 0 False)) isAlreadyCheapest = Some False \<and>
   Option.bind (nudge_data (alternativeNudge 0 False)) alternativePrice = Some 0 \<and>
   handleNudgeAccept env0 Alternative
       ((page_init [lineX] (Some alice))\<lparr>currentNudge := Some (alternativeNudge 0 False)\<rparr>) =
     (page_init [lineX] (Some alice))\<lparr>calls := [RecordNudgeInteraction Alternative True]\<rparr>"
  using C10_accept_without_alternative
    [of "(page_init [lineX] (Some alice))\<lparr>currentNudge := Some (alternativeNudge 0 False)\<rparr>"
        "the (nudge_data (alternativeNudge 0 False))" env0]
  by (simp add: example_defs payload_def)

text \<open>
  Claim C5. When an alternative nudge whose payload says \<open>isAlreadyCheapest\<close> is accepted
  on a non-empty cart (a cart has one line per slug), the handler calls \<open>removeItem\<close>
  once, with the slug of the first line, and never \<open>addItem\<close>; the cart it leaves is the
  old one without its first line, and the notification reports the first line's price
  times its quantity as the amount saved. Nothing else changes but the current nudge,
  which is cleared.
\<close>

theorem C5_accept_already_cheapest:
  assumes "payload (currentNudge st) = Some d"
    and "isAlreadyCheapest d = Some True"
    and "items st = x # xs"
    and "distinct (map slug (items st))"
  shows "handleNudgeAccept e Alternative st =
           st\<lparr>items := xs,
              calls := calls st @ [RecordNudgeInteraction Alternative True, RemoveItem (slug x)],
              notificationType := Success,
              notificationMessage := SavedByRemoving (price x * of_nat (quantity x)) (title x),
              showNotification := True,
              currentNudge := None\<rparr>"
proof -
  have "removeItem (slug x) (items st) = xs"
    using assms(3,4) removeItem_first [of x xs] by simp
  then show ?thesis
    using assms(1,2,3)
    by (simp add: handleNudgeAccept_def called_def truthy_bool_def first_item_def notify_def
          cart_removeItem_def)
qed

text \<open>Three lamps at 50 and a mug: the lamps go, 150 is reported, the mug stays.\<close>

theorem C5_accept_already_cheapest_witness:
  "distinct (map slug [lineX, lineA]) \<and>
   Option.bind (nudge_data (alternativeNudge 50 True)) isAlreadyCheapest = Some True \<and>
   handleNudgeAccept env0 Alternative
       ((page_init [lineX, lineA] (Some alice))\<lparr>currentNudge := Some (alternativeNudge 50 True)\<rparr>) =
     (page_init [lineA] (Some alice))
       \<lparr>calls := [RecordNudgeInteraction Alternative True, RemoveItem ''x''],
        notificationMessage := SavedByRemoving 150 ''Desk lamp'',
        showNotification := True\<rparr>"
  using C5_accept_already_cheapest
    [of "(page_init [lineX, lineA] (Some alice))\<lparr>currentNudge := Some (alternativeNudge 50 True)\<rparr>"
        "the (nudge_data (alternativeNudge 50 True))" lineX "[lineA]" env0]
  by (simp add: example_defs payload_def)

text \<open>
  Claim C4, as stated, promises the exchange for every strictly cheaper alternative. The
  source guards the exchange with \<^verbatim>\<open>alternativeData.alternativePrice\<close>, which is falsy
  for the price 0: an alternative at 0 for a lamp at 50 is strictly cheaper and not
  already cheapest, yet accepting it leaves the lamp in the cart and adds nothing.
\<close>

theorem C4_free_alternative_counterexample:
  "first_item (items ((page_init [lineX] (Some alice))\<lparr>currentNudge := Some (alternativeNudge 0 False)\<rparr>))
     = Some lineX \<and>
   quantity lineX = 3 \<and>
   Option.bind (nudge_data (alternativeNudge 0 False)) isAlreadyCheapest = Some False \<and>
   Option.bind (nudge_data (alternativeNudge 0 False)) alternativePrice = Some 0 \<and>
   Option.bind (nudge_data (alternativeNudge 0 False)) currentPrice = Some 50 \<and>
   Option.bind (nudge_data (alternativeNudge 0 False)) alternativeSlug = Some ''y'' \<and>
   items (handleNudgeAccept env0 Alternative
      ((page_init [lineX] (Some alice))\<lparr>currentNudge := Some (alternativeNudge 0 False)\<rparr>)) = [lineX] \<and>
   slug lineX \<noteq> ''y''"
  by (simp add: handleNudgeAccept_def called_def truthy_string_def truthy_number_def
        truthy_bool_def first_item_def payload_def example_defs)

text \<open>
  Claim C4, amended. Take a cart with one line per slug and quantities of at least 1, whose
  first line is X with quantity q, and an alternative nudge whose payload does not say
  \<open>isAlreadyCheapest\<close> and carries a non-empty \<open>alternativeProduct\<close>, an
  \<open>alternativePrice\<close> other than 0 and a \<open>currentPrice\<close>. Let Y be the line the handler
  builds for the alternative (its slug is the payload's \<open>alternativeSlug\<close>, or
  \<^verbatim>\<open>alternative-\<close> followed by the clock when that is missing), and let the slug of Y
  not occur in the cart. Then accepting the nudge calls \<open>removeItem\<close> with the slug of X
  and \<open>addItem\<close> with Y; the cart becomes the other lines followed by Y, so it has exactly
  one line for Y, with quantity q, and no line for X; and the notification reports the
  payload's \<open>currentPrice\<close> minus its \<open>alternativePrice\<close> as the saving.
\<close>

theorem C4_accept_cheaper_alternative:
  assumes "payload (currentNudge st) = Some d"
    and "isAlreadyCheapest d \<noteq> Some True"
    and "alternativeProduct d = Some p" and "p \<noteq> []"
    and "alternativePrice d = Some a" and "a \<noteq> 0"
    and "currentPrice d = Some c"
    and "items st = x # xs" and "cart_ok (items st)"
    and "slug (alternativeLine e d x p a) \<notin> set (map slug (items st))"
  shows "items (handleNudgeAccept e Alternative st) = xs @ [alternativeLine e d x p a] \<and>
         quantity (alternativeLine e d x p a) = quantity x \<and>
         title (alternativeLine e d x p a) = p \<and>
         price (alternativeLine e d x p a) = a \<and>
         filter (\<lambda>l. slug l = slug (alternativeLine e d x p a))
            (items (handleNudgeAccept e Alternative st)) = [alternativeLine e d x p a] \<and>
         filter (\<lambda>l. slug l = slug x) (items (handleNudgeAccept e Alternative st)) = [] \<and>
         notificationMessage (handleNudgeAccept e Alternative st) = SwitchedTo p (Some (c - a)) \<and>
         notificationType (handleNudgeAccept e Alternative st) = Success \<and>
         showNotification (handleNudgeAccept e Alternative st) \<and>
         currentNudge (handleNudgeAccept e Alternative st) = None \<and>
         new_calls st (handleNudgeAccept e Alternative st) =
           [RecordNudgeInteraction Alternative True, RemoveItem (slug x),
            AddItem (alternativeLine e d x p a)]"
proof -
  let ?y = "alternativeLine e d x p a"
  have dist: "distinct (map slug (x # xs))" and qx: "1 \<le> quantity x"
    using assms(8,9) by (simp_all add: cart_ok_def)
  have rem: "removeItem (slug x) (items st) = xs"
    using assms(8) removeItem_first [OF dist] by simp
  have qy: "quantity ?y = quantity x" by (simp add: alternativeLine_def)
  have fresh: "slug ?y \<notin> set (map slug xs)" and yx: "slug ?y \<noteq> slug x"
    using assms(8,10) by auto
  have add: "addItem ?y xs = xs @ [?y]"
    using addItem_fresh [of ?y xs] qy qx fresh by simp
  have bool: "\<not> truthy_bool (isAlreadyCheapest d)"
    using assms(2) by (cases "isAlreadyCheapest d") (auto simp add: truthy_bool_def)
  have run: "handleNudgeAccept e Alternative st =
      st\<lparr>items := xs @ [?y],
         calls := calls st @ [RecordNudgeInteraction Alternative True, RemoveItem (slug x), AddItem ?y],
         notificationType := Success,
         notificationMessage := SwitchedTo p (Some (c - a)),
         showNotification := True,
         currentNudge := None\<rparr>"
    using assms(1,3,4,5,6,7,8) bool rem add
    by (simp add: handleNudgeAccept_def called_def truthy_string_def truthy_number_def
          first_item_def notify_def cart_removeItem_def cart_addItem_def)
  have f1: "filter (\<lambda>l. slug l = slug ?y) xs = []"
    using fresh by (rule no_line_of_slug)
  have "slug x \<notin> set (map slug xs)" using dist by simp
  then have f2: "filter (\<lambda>l. slug l = slug x) xs = []"
    by (rule no_line_of_slug)
  show ?thesis
    unfolding run using f1 f2 yx
    by (simp add: new_calls_def alternativeLine_def)
qed

text \<open>
  Scenario D of the spec: three lamps at 50, the alternative at 30 is accepted; the cart
  loses the lamps, gains three of the alternative, and the saving reported is 20.
\<close>

theorem C4_accept_cheaper_alternative_witness:
  "cart_ok [lineX, lineA] \<and>
   Option.bind (nudge_data (alternativeNudge 30 False)) isAlreadyCheapest = Some False \<and>
   Option.bind (nudge_data (alternativeNudge 30 False)) alternativeProduct = Some ''Clip light'' \<and>
   Option.bind (nudge_data (alternativeNudge 30 False)) alternativePrice = Some 30 \<and>
   Option.bind (nudge_data (alternativeNudge 30 False)) currentPrice = Some 50 \<and>
   slug (alternativeLine env0 (the (nudge_data (alternativeNudge 30 False))) lineX ''Clip light'' 30)
     \<notin> set (map slug [lineX, lineA]) \<and>
   items (handleNudgeAccept env0 Alternative
      ((page_init [lineX, lineA] (Some alice))\<lparr>currentNudge := Some (alternativeNudge 30 False)\<rparr>)) =
     [lineA, \<lparr>slug = ''y'', title = ''Clip light'', price = 30, quantity = 3,
              image_ref = ''/images/products/y.jpg'', category = ''lighting''\<rparr>] \<and>
   notificationMessage (handleNudgeAccept env0 Alternative
      ((page_init [lineX, lineA] (Some alice))\<lparr>currentNudge := Some (alternativeNudge 30 False)\<rparr>)) =
     SwitchedTo ''Clip light'' (Some 20)"
  using C4_accept_cheaper_alternative
    [of "(page_init [lineX, lineA] (Some alice))\<lparr>currentNudge := Some (alternativeNudge 30 False)\<rparr>"
        "the (nudge_data (alternativeNudge 30 False))" "''Clip light''" 30 50 lineX "[lineA]" env0]
  by (simp add: example_defs payload_def cart_ok_def alternativeLine_def or_else_def truthy_string_def)

text \<open>
  Claim C9. Accepting an alternative nudge works on the first line of the cart, whatever
  product the payload of the nudge describes: every \<open>removeItem\<close> the handler calls has
  the slug of the first line as its argument, and it does call \<open>removeItem\<close> with that
  slug whenever the cart is non-empty and the payload says \<open>isAlreadyCheapest\<close> or
  carries a usable alternative (a non-empty product, a price other than 0). On an empty
  cart the handler changes no cart: it reports the interaction and clears the nudge.
\<close>

theorem C9_accept_operates_on_first_line:
  "(\<forall>s. RemoveItem s \<in> set (new_calls st (handleNudgeAccept e Alternative st)) \<longrightarrow>
        map_option slug (first_item (items st)) = Some s)
   \<and> (\<forall>x xs d. items st = x # xs \<and> payload (currentNudge st) = Some d \<and>
         (isAlreadyCheapest d = Some True \<or>
          (truthy_string (alternativeProduct d) \<noteq> None \<and>
           truthy_number (alternativePrice d) \<noteq> None))
        \<longrightarrow> RemoveItem (slug x) \<in> set (new_calls st (handleNudgeAccept e Alternative st)))
   \<and> (items st = [] \<longrightarrow>
        handleNudgeAccept e Alternative st =
          st\<lparr>calls := calls st @ [RecordNudgeInteraction Alternative True],
             currentNudge := None\<rparr>)"
proof (intro conjI allI impI)
  fix s
  assume s: "RemoveItem s \<in> set (new_calls st (handleNudgeAccept e Alternative st))"
  obtain cs where cs: "calls (handleNudgeAccept e Alternative st) =
        calls st @ RecordNudgeInteraction Alternative True # cs"
    and shape: "cs = [] \<or>
      (\<exists>x xs. items st = x # xs \<and>
         (cs = [RemoveItem (slug x)] \<or> (\<exists>l. cs = [RemoveItem (slug x), AddItem l])))"
    using accept_calls [of e Alternative st] by blast
  from s cs have "RemoveItem s \<in> set cs" by (simp add: new_calls_def)
  with shape show "map_option slug (first_item (items st)) = Some s"
    by (auto simp add: first_item_def)
next
  fix x xs d
  assume "items st = x # xs \<and> payload (currentNudge st) = Some d \<and>
         (isAlreadyCheapest d = Some True \<or>
          (truthy_string (alternativeProduct d) \<noteq> None \<and>
           truthy_number (alternativePrice d) \<noteq> None))"
  then show "RemoveItem (slug x) \<in> set (new_calls st (handleNudgeAccept e Alternative st))"
    using accept_removes [of st x xs d e] by blast
next
  assume "items st = []"
  then show "handleNudgeAccept e Alternative st =
          st\<lparr>calls := calls st @ [RecordNudgeInteraction Alternative True],
             currentNudge := None\<rparr>"
    by (simp add: handleNudgeAccept_def Let_def called_def first_item_def split: option.splits)
qed

text \<open>
  The nudge was built for the lamp, the mug is the first line now: the mug is what
  \<open>removeItem\<close> is called with, and the alternative takes the mug's quantity.
\<close>

theorem C9_accept_operates_on_first_line_witness:
  "map_option slug (first_item (items staleNudge)) = Some ''a'' \<and>
   Option.bind (payload (currentNudge staleNudge)) currentProduct = Some (title lineX) \<and>
   truthy_string (Option.bind (payload (currentNudge staleNudge)) alternativeProduct) \<noteq> None \<and>
   truthy_number (Option.bind (payload (currentNudge staleNudge)) alternativePrice) \<noteq> None \<and>
   RemoveItem ''a'' \<in> set (new_calls staleNudge (handleNudgeAccept env0 Alternative staleNudge)) \<and>
   new_calls staleNudge (handleNudgeAccept env0 Alternative staleNudge) =
     [RecordNudgeInteraction Alternative True, RemoveItem ''a'',
      AddItem \<lparr>slug = ''y'', title = ''Clip light'', price = 30, quantity = 2,
               image_ref = ''/images/products/y.jpg'', category = ''lighting''\<rparr>] \<and>
   handleNudgeAccept env0 Alternative
       ((page_init [] (Some alice))\<lparr>currentNudge := Some (alternativeNudge 30 False)\<rparr>) =
     (page_init [] (Some alice))\<lparr>calls := [RecordNudgeInteraction Alternative True]\<rparr>"
  using C9_accept_operates_on_first_line [of staleNudge env0]
        C9_accept_operates_on_first_line
          [of "(page_init [] (Some alice))\<lparr>currentNudge := Some (alternativeNudge 30 False)\<rparr>" env0]
  by (simp add: staleNudge_def example_defs new_calls_def handleNudgeAccept_def Let_def called_def
        notify_def cart_removeItem_def cart_addItem_def first_item_def payload_def truthy_bool_def
        truthy_string_def truthy_number_def alternativeLine_def or_else_def)

subsection \<open>Rejecting a nudge\<close>

text \<open>
  Claim C6. Rejecting a gentle or a block nudge proceeds to the commit: the handler
  reports the interaction, clears the nudge, sets \<open>canProceedWithCheckout\<close> and then runs
  \<open>processCheckout\<close> on that state, which, where storage can be read and written,
  appends the order and clears the cart. Rejecting an alternative nudge does neither: it
  reports the interaction and clears the nudge.
\<close>

theorem C6_reject:
  "(t = Gentle \<or> t = Block \<longrightarrow>
      handleNudgeReject e t st =
        processCheckout e
          (st\<lparr>calls := calls st @ [RecordNudgeInteraction t False],
              currentNudge := None, canProceedWithCheckout := True\<rparr>) \<and>
      (\<forall>os. parseOrders (modshop_orders st) = Inr os \<and> \<not> quotaExceeded e \<longrightarrow>
         (\<exists>st'. handleNudgeReject e t st = Inr st' \<and>
            modshop_orders st' = Stored (os @ [buildOrder e st]) \<and>
            items st' = [] \<and>
            new_calls st st' =
              [RecordNudgeInteraction t False, SetItem (os @ [buildOrder e st]), ClearCart])))
   \<and> handleNudgeReject e Alternative st =
       Inr (st\<lparr>calls := calls st @ [RecordNudgeInteraction Alternative False],
               currentNudge := None\<rparr>)"
proof (intro conjI allI impI)
  show "handleNudgeReject e Alternative st =
       Inr (st\<lparr>calls := calls st @ [RecordNudgeInteraction Alternative False],
               currentNudge := None\<rparr>)"
    by (simp add: handleNudgeReject_def called_def)
next
  assume t: "t = Gentle \<or> t = Block"
  then show eq: "handleNudgeReject e t st =
        processCheckout e
          (st\<lparr>calls := calls st @ [RecordNudgeInteraction t False],
              currentNudge := None, canProceedWithCheckout := True\<rparr>)"
    by (auto simp add: handleNudgeReject_def called_def)
  fix os
  assume a: "parseOrders (modshop_orders st) = Inr os \<and> \<not> quotaExceeded e"
  let ?st1 = "st\<lparr>calls := calls st @ [RecordNudgeInteraction t False],
              currentNudge := None, canProceedWithCheckout := True\<rparr>"
  from a have os: "parseOrders (modshop_orders st) = Inr os" and q: "\<not> quotaExceeded e"
    by simp_all
  from os have os1: "parseOrders (modshop_orders ?st1) = Inr os" by simp
  show "\<exists>st'. handleNudgeReject e t st = Inr st' \<and>
            modshop_orders st' = Stored (os @ [buildOrder e st]) \<and>
            items st' = [] \<and>
            new_calls st st' =
              [RecordNudgeInteraction t False, SetItem (os @ [buildOrder e st]), ClearCart]"
    using os eq processCheckout_success [OF os1 q] by (simp add: new_calls_def)
qed

theorem C6_reject_witness:
  "parseOrders (modshop_orders (triggerGentleNudge (page_init [lineA] (Some alice)))) = Inr [] \<and>
   \<not> quotaExceeded env0 \<and>
   (\<exists>st'. handleNudgeReject env0 Gentle (triggerGentleNudge (page_init [lineA] (Some alice))) = Inr st' \<and>
      items st' = [] \<and> currentNudge st' = None \<and>
      (\<exists>order. modshop_orders st' = Stored [order] \<and> order_total order = 20)) \<and>
   handleNudgeReject env0 Alternative (page_init [lineA] (Some alice)) =
     Inr ((page_init [lineA] (Some alice))\<lparr>calls := [RecordNudgeInteraction Alternative False]\<rparr>)"
  using C6_reject [of Gentle env0 "triggerGentleNudge (page_init [lineA] (Some alice))"]
  by (simp add: example_defs triggerGentleNudge_def parseOrders_def processCheckout_def Let_def
        buildOrder_def total_def notify_def called_def cart_clearCart_def clearCart_def
        first_item_def or_else_def truthy_string_def handleNudgeReject_def)

subsection \<open>The commit is all or nothing\<close>

text \<open>
  Claim C2, as stated, says that a failure to persist the order surfaces a user-visible
  error. The source has no handler around the storage calls: when \<^verbatim>\<open>setItem\<close> throws,
  \<open>processCheckout\<close> ends there, and no notification is shown.
\<close>

theorem C2_silent_failure_counterexample:
  "processCheckout envFull (page_init [lineA] (Some alice)) =
     Inl (QuotaExceededError, (page_init [lineA] (Some alice))\<lparr>checkoutAnimating := True\<rparr>) \<and>
   \<not> showNotification ((page_init [lineA] (Some alice))\<lparr>checkoutAnimating := True\<rparr>) \<and>
   notificationMessage ((page_init [lineA] (Some alice))\<lparr>checkoutAnimating := True\<rparr>) = EmptyMessage"
  by (simp add: processCheckout_def parseOrders_def Let_def example_defs)

text \<open>
  Claim C2, amended. For every commit, either the order is appended to the stored orders
  and the cart is cleared together (with the success notification and the flags reset),
  or neither happens. The second case is the one where the stored entry cannot be parsed
  or storage refuses the write: the exception leaves \<open>processCheckout\<close> uncaught, and
  the state differs from the one before only in \<open>checkoutAnimating\<close>; the cart is not
  cleared, no order is recorded and no notification is surfaced.
\<close>

theorem C2_commit_all_or_nothing:
  "((\<exists>x. parseOrders (modshop_orders st) = Inl x) \<or> quotaExceeded e \<longrightarrow>
      (\<exists>x. processCheckout e st = Inl (x, st\<lparr>checkoutAnimating := True\<rparr>)))
   \<and> (\<forall>os. parseOrders (modshop_orders st) = Inr os \<and> \<not> quotaExceeded e \<longrightarrow>
      (\<exists>st'. processCheckout e st = Inr st' \<and>
         modshop_orders st' = Stored (os @ [buildOrder e st]) \<and>
         items st' = [] \<and>
         new_calls st st' = [SetItem (os @ [buildOrder e st]), ClearCart] \<and>
         showNotification st' \<and> notificationType st' = Success \<and>
         notificationMessage st' = OrderPlaced \<and>
         \<not> canProceedWithCheckout st' \<and> currentNudge st' = None))"
proof (intro conjI allI impI)
  assume "(\<exists>x. parseOrders (modshop_orders st) = Inl x) \<or> quotaExceeded e"
  then obtain x where "parseOrders (modshop_orders st) = Inl x \<or> quotaExceeded e"
    by blast
  then show "\<exists>x. processCheckout e st = Inl (x, st\<lparr>checkoutAnimating := True\<rparr>)"
    by (rule processCheckout_failure)
next
  fix os
  assume a: "parseOrders (modshop_orders st) = Inr os \<and> \<not> quotaExceeded e"
  then have os: "parseOrders (modshop_orders st) = Inr os" and q: "\<not> quotaExceeded e"
    by simp_all
  show "\<exists>st'. processCheckout e st = Inr st' \<and>
         modshop_orders st' = Stored (os @ [buildOrder e st]) \<and>
         items st' = [] \<and>
         new_calls st st' = [SetItem (os @ [buildOrder e st]), ClearCart] \<and>
         showNotification st' \<and> notificationType st' = Success \<and>
         notificationMessage st' = OrderPlaced \<and>
         \<not> canProceedWithCheckout st' \<and> currentNudge st' = None"
    using os processCheckout_success [OF os q] by (simp add: new_calls_def)
qed

theorem C2_commit_all_or_nothing_witness:
  "quotaExceeded envFull \<and> \<not> quotaExceeded env0 \<and>
   parseOrders (modshop_orders (page_init [lineA] (Some alice))) = Inr [] \<and>
   (\<exists>x. processCheckout envFull (page_init [lineA] (Some alice)) =
        Inl (x, (page_init [lineA] (Some alice))\<lparr>checkoutAnimating := True\<rparr>)) \<and>
   (\<exists>st'. processCheckout env0 (page_init [lineA] (Some alice)) = Inr st' \<and>
        modshop_orders st' = Stored [buildOrder env0 (page_init [lineA] (Some alice))] \<and>
        order_total (buildOrder env0 (page_init [lineA] (Some alice))) = 20 \<and>
        items st' = [])"
  using C2_commit_all_or_nothing [of "page_init [lineA] (Some alice)" envFull]
        C2_commit_all_or_nothing [of "page_init [lineA] (Some alice)" env0]
  by (auto simp add: example_defs parseOrders_def buildOrder_def total_def)

subsection \<open>The end of a block nudge\<close>

text \<open>
  Claim C1, as stated, says that the completion callback of a block nudge takes the gate
  to the commit without further user action. \<open>handleBlockComplete\<close> does not call
  \<open>processCheckout\<close>: after it the bypass flag is set, but the cart still holds its line
  and no order has been written.
\<close>

theorem C1_no_commit_counterexample:
  "handleCheckout envBlock (page_init [lineA] (Some alice)) = Inr blockOpen \<and>
   map_option nudge_type (currentNudge blockOpen) = Some Block \<and>
   canProceedWithCheckout (handleBlockComplete blockOpen) \<and>
   items (handleBlockComplete blockOpen) = [lineA] \<and>
   modshop_orders (handleBlockComplete blockOpen) = Absent \<and>
   commits (handleBlockComplete blockOpen) = 0 \<and>
   \<not> checkoutAnimating (handleBlockComplete blockOpen)"
  by (simp add: blockOpen_def page_defs example_defs log_defs)

text \<open>
  Claim C1, amended. When the completion callback of a block nudge fires, the gate
  reports the interaction, clears the nudge and sets \<open>canProceedWithCheckout\<close>, and
  changes nothing else: it does not commit. The next checkout request of a logged-in user
  then goes straight to \<open>processCheckout\<close>, without a nudge evaluation, and (where
  storage can be read and written) appends the order and clears the cart.
\<close>

theorem C1_block_complete:
  "handleBlockComplete st =
     st\<lparr>calls := calls st @ [RecordNudgeInteraction Block True],
        currentNudge := None, canProceedWithCheckout := True\<rparr>
   \<and> (user st \<noteq> None \<longrightarrow>
        handleCheckout e (handleBlockComplete st) = processCheckout e (handleBlockComplete st) \<and>
        evaluations (state_of (handleCheckout e (handleBlockComplete st))) = evaluations st \<and>
        (\<forall>os. parseOrders (modshop_orders st) = Inr os \<and> \<not> quotaExceeded e \<longrightarrow>
           (\<exists>st'. handleCheckout e (handleBlockComplete st) = Inr st' \<and>
              modshop_orders st' = Stored (os @ [buildOrder e st]) \<and>
              items st' = [] \<and>
              new_calls st st' =
                [RecordNudgeInteraction Block True, SetItem (os @ [buildOrder e st]), ClearCart])))"
proof (intro conjI allI impI)
  let ?st1 = "handleBlockComplete st"
  show hb: "?st1 = st\<lparr>calls := calls st @ [RecordNudgeInteraction Block True],
        currentNudge := None, canProceedWithCheckout := True\<rparr>"
    by (simp add: handleBlockComplete_def called_def)
  have flag: "canProceedWithCheckout ?st1" by (simp add: hb)
  have ev: "evaluations ?st1 = evaluations st" by (simp add: hb log_defs)
  assume u: "user st \<noteq> None"
  then have u1: "user ?st1 \<noteq> None" by (simp add: hb)
  show eq: "handleCheckout e ?st1 = processCheckout e ?st1"
    using flag u1 by (simp add: checkout_bypass del: not_None_eq)
  show "evaluations (state_of (handleCheckout e ?st1)) = evaluations st"
    using checkout_bypass_log [OF flag, of e] ev by simp
  fix os
  assume a: "parseOrders (modshop_orders st) = Inr os \<and> \<not> quotaExceeded e"
  then have os: "parseOrders (modshop_orders st) = Inr os" and q: "\<not> quotaExceeded e"
    by simp_all
  from os have os1: "parseOrders (modshop_orders ?st1) = Inr os" by (simp add: hb)
  have b: "buildOrder e ?st1 = buildOrder e st" by (simp add: hb)
  show "\<exists>st'. handleCheckout e ?st1 = Inr st' \<and>
              modshop_orders st' = Stored (os @ [buildOrder e st]) \<and>
              items st' = [] \<and>
              new_calls st st' =
                [RecordNudgeInteraction Block True, SetItem (os @ [buildOrder e st]), ClearCart]"
    using os eq processCheckout_success [OF os1 q] b
    by (simp add: new_calls_def hb)
qed

theorem C1_block_complete_witness:
  "user blockOpen \<noteq> None \<and> parseOrders (modshop_orders blockOpen) = Inr [] \<and>
   \<not> quotaExceeded envBlock \<and> evaluations blockOpen = 1 \<and>
   evaluations (state_of (handleCheckout envBlock (handleBlockComplete blockOpen))) = 1 \<and>
   (\<exists>st'. handleCheckout envBlock (handleBlockComplete blockOpen) = Inr st' \<and>
      modshop_orders st' = Stored [buildOrder envBlock blockOpen] \<and>
      order_total (buildOrder envBlock blockOpen) = 20 \<and>
      items st' = [])"
  using C1_block_complete [of blockOpen envBlock]
  by (simp add: blockOpen_def page_defs example_defs log_defs)

subsection \<open>The bypass flag\<close>

text \<open>
  Claim C3. Once \<open>canProceedWithCheckout\<close> is set, a checkout request does not consult
  the nudge service: its result is the same for every nudge service, and the number of
  evaluations in the log does not change. This stays so for whatever happens to the page
  afterwards, changes of the cart included, for as long as no order has been committed:
  over every run of events that writes no order, the number of evaluations is unchanged
  and the flag is still set. The flag is reset by the commit itself.
\<close>

theorem C3_bypass_one_shot:
  assumes "canProceedWithCheckout st"
  shows "handleCheckout (e\<lparr>triggerNudge := f\<rparr>) st = handleCheckout e st \<and>
         evaluations (state_of (handleCheckout e st)) = evaluations st \<and>
         (commits (run evs st) = commits st \<longrightarrow>
            evaluations (run evs st) = evaluations st \<and> canProceedWithCheckout (run evs st)) \<and>
         (user st \<noteq> None \<and> (\<exists>os. parseOrders (modshop_orders st) = Inr os) \<and>
          \<not> quotaExceeded e \<longrightarrow>
            (\<exists>st'. handleCheckout e st = Inr st' \<and> \<not> canProceedWithCheckout st' \<and>
                   commits st' = Suc (commits st)))"
proof (intro conjI impI)
  show "handleCheckout (e\<lparr>triggerNudge := f\<rparr>) st = handleCheckout e st"
    using assms by (simp add: checkout_bypass processCheckout_env)
  show "evaluations (state_of (handleCheckout e st)) = evaluations st"
    using checkout_bypass_log [OF assms, of e] by simp
next
  assume "commits (run evs st) = commits st"
  then show "evaluations (run evs st) = evaluations st" "canProceedWithCheckout (run evs st)"
    using run_bypass [OF assms, of evs] by simp_all
next
  assume a: "user st \<noteq> None \<and> (\<exists>os. parseOrders (modshop_orders st) = Inr os) \<and>
          \<not> quotaExceeded e"
  then obtain os where os: "parseOrders (modshop_orders st) = Inr os" by blast
  from a have q: "\<not> quotaExceeded e" and u: "user st \<noteq> None" by simp_all
  show "\<exists>st'. handleCheckout e st = Inr st' \<and> \<not> canProceedWithCheckout st' \<and>
                   commits st' = Suc (commits st)"
    using assms u processCheckout_success [OF os q]
    by (simp add: checkout_bypass log_defs del: not_None_eq)
qed

text \<open>
  After the block nudge has run out the cart changes, a checkout fails on the write and
  another is refused for want of a user: the nudge service, which would answer with a
  block nudge, is not asked again.
\<close>

theorem C3_bypass_one_shot_witness:
  "canProceedWithCheckout bypassArmed \<and> user bypassArmed \<noteq> None \<and>
   parseOrders (modshop_orders bypassArmed) = Inr [] \<and> \<not> quotaExceeded envBlock \<and>
   triggerNudge envBlock [lineX, lineA] (total [lineX, lineA]) =
     \<lparr>nudge_type = Block, nudge_data = Some (noData\<lparr>duration := Some 15\<rparr>)\<rparr> \<and>
   commits (run attempt bypassArmed) = commits bypassArmed \<and>
   evaluations (run attempt bypassArmed) = evaluations bypassArmed \<and>
   items (run attempt bypassArmed) = [lineX, lineA] \<and>
   canProceedWithCheckout (run attempt bypassArmed) \<and>
   (\<exists>st'. handleCheckout envBlock bypassArmed = Inr st' \<and> \<not> canProceedWithCheckout st' \<and>
        commits st' = 1)"
  using C3_bypass_one_shot
    [where st = bypassArmed and e = envBlock and f = "triggerNudge env0" and evs = attempt]
  by (simp add: bypassArmed_def blockOpen_def attempt_def envBlockFull_def page_defs
        example_defs log_defs)

end
